theory Spec2Isabelle
  imports
    Main
    "HOL-Library.AList"
    "HOL-Library.Char_ord"
    "HOL-Library.List_Lexorder"
    "HOL-Library.Multiset"
begin

section \<open>The metadata backends of django-seo (djangoseo/backends.py)\<close>

text \<open>
  The development follows \<^verbatim>\<open>djangoseo/backends.py\<close> and the path handling of
  \<^verbatim>\<open>djangoseo/templatetags/seo.py\<close>. A Python exception is a value of type
  \<open>error\<close>, and a function that may raise returns \<open>error + 'a\<close> with \<open>Inl\<close> for the
  exception. Names that start with an underscore in the source carry the prefix \<open>u_\<close>
  here (\<^verbatim>\<open>_path\<close> is \<open>u_path\<close>); a method \<^verbatim>\<open>C.m\<close> is the constant \<open>C_m\<close>.
\<close>

subsection \<open>Exceptions and values\<close>

datatype error =
    AttributeError
  | IntegrityError
  | ValueError
  | TemplateSyntaxError
  | DoesNotExist
  | MultipleObjectsReturned
  | FieldError
  | Exception string

subsection \<open>Options and the composite uniqueness constraint\<close>

text \<open>
  The options object read by the backends: the three axes and the ordered list of
  active backend names.
\<close>

record options =
  use_sites :: bool
  use_i18n :: bool
  use_subdomains :: bool
  backends :: "string list"

text \<open>The four backend classes, and the class attribute \<^verbatim>\<open>unique_together\<close> of each.\<close>

datatype backend = PathBackend | ViewBackend | ModelInstanceBackend | ModelBackend

fun backend_name :: "backend \<Rightarrow> string" where
  "backend_name PathBackend = ''path''"
| "backend_name ViewBackend = ''view''"
| "backend_name ModelInstanceBackend = ''modelinstance''"
| "backend_name ModelBackend = ''model''"

fun unique_together :: "backend \<Rightarrow> string list list" where
  "unique_together PathBackend = [[''_path'']]"
| "unique_together ViewBackend = [[''_view'']]"
| "unique_together ModelInstanceBackend = [[''_path''], [''_content_type'', ''_object_id'']]"
| "unique_together ModelBackend = [[''_content_type'']]"

text \<open>
  The body of the loop of \<^verbatim>\<open>get_unique_together\<close>: the tuple is copied into a list
  and the three appends run in the order of the source.
\<close>

definition extend_ut_set :: "options \<Rightarrow> string list \<Rightarrow> string list" where
  "extend_ut_set opts ut_set =
     (let s0 = ut_set;
          s1 = (if use_sites opts then s0 @ [''_site''] else s0);
          s2 = (if use_i18n opts then s1 @ [''_language''] else s1);
          s3 = (if use_subdomains opts then s2 @ [''_subdomain''] else s2)
      in s3)"

text \<open>The loop itself, with the accumulator \<^verbatim>\<open>ut\<close> that each round appends to.\<close>

fun ut_loop :: "options \<Rightarrow> string list list \<Rightarrow> string list list \<Rightarrow> string list list" where
  "ut_loop opts ut [] = ut"
| "ut_loop opts ut (ut_set # rest) = ut_loop opts (ut @ [extend_ut_set opts ut_set]) rest"

definition get_unique_together :: "backend \<Rightarrow> options \<Rightarrow> string list list" where
  "get_unique_together b opts = ut_loop opts [] (unique_together b)"

text \<open>
  The suffix that the specification describes: one axis field per enabled axis, in the
  order site, language, subdomain.
\<close>

definition axis_fields :: "options \<Rightarrow> string list" where
  "axis_fields opts =
     (if use_sites opts then [''_site''] else []) @
     (if use_i18n opts then [''_language''] else []) @
     (if use_subdomains opts then [''_subdomain''] else [])"

subsection \<open>Validation of the backend order\<close>

text \<open>
  \<^verbatim>\<open>list.index\<close>: the position of the first occurrence, \<^verbatim>\<open>ValueError\<close> when the
  element does not occur.
\<close>

fun index :: "string list \<Rightarrow> string \<Rightarrow> error + nat" where
  "index [] x = Inl ValueError"
| "index (y # ys) x =
     (if y = x then Inr 0
      else (case index ys x of Inl e \<Rightarrow> Inl e | Inr i \<Rightarrow> Inr (Suc i)))"

text \<open>
  \<^verbatim>\<open>MetadataBackend.validate\<close> does nothing; \<^verbatim>\<open>ModelBackend.validate\<close> overrides it.
  The left operand of the comparison is evaluated first, and a \<^verbatim>\<open>ValueError\<close> of
  either \<^verbatim>\<open>index\<close> call is replaced by the second exception.
\<close>

definition MetadataBackend_validate :: "options \<Rightarrow> error + unit" where
  "MetadataBackend_validate opts = Inr ()"

definition ModelBackend_validate :: "options \<Rightarrow> error + unit" where
  "ModelBackend_validate opts =
     (case index (backends opts) ''modelinstance'' of
        Inl e \<Rightarrow>
          Inl (Exception ''Metadata backend 'modelinstance' must be installed in order to use 'model' backend'')
      | Inr i \<Rightarrow>
          (case index (backends opts) ''model'' of
             Inl e \<Rightarrow>
               Inl (Exception ''Metadata backend 'modelinstance' must be installed in order to use 'model' backend'')
           | Inr j \<Rightarrow>
               if i > j
               then Inl (Exception ''Metadata backend 'modelinstance' must come before 'model' backend'')
               else Inr ()))"

fun validate :: "backend \<Rightarrow> options \<Rightarrow> error + unit" where
  "validate ModelBackend opts = ModelBackend_validate opts"
| "validate b opts = MetadataBackend_validate opts"

subsection \<open>Values, content objects and metadata records\<close>

text \<open>
  The value of a metadata field is a text or \<^verbatim>\<open>None\<close>: the metadata fields of
  django-seo are text columns. \<open>truthy\<close> is the truth value Python gives to such a
  value in \<^verbatim>\<open>if value:\<close>.
\<close>

datatype val = VNone | VStr string

fun truthy :: "val \<Rightarrow> bool" where
  "truthy VNone = False"
| "truthy (VStr s) = (s \<noteq> [])"

text \<open>
  The object a ModelInstance record points to through its generic foreign key. Its
  attribute \<^verbatim>\<open>get_absolute_url\<close> may be missing; when present it is a method whose
  call returns a path or raises. \<open>content_type_id\<close> is what
  \<^verbatim>\<open>ContentType.objects.get_for_model\<close> finds for the object.
\<close>

datatype url_attr = NoAttribute | Method "error + string"

record content_object =
  model_name :: string
  content_type_id :: nat
  get_absolute_url :: url_attr

text \<open>
  The rendering context (\<^verbatim>\<open>view_context\<close>) is a dictionary from names to texts and
  objects; \<^verbatim>\<open>Context()\<close> is the empty one and \<^verbatim>\<open>context[k] = v\<close> is
  \<open>AList.update k v\<close>.
\<close>

datatype tval = TStr string | TObject content_object

type_synonym view_context = "(string \<times> tval) list"

text \<open>
  The columns of a metadata row. Every backend model has the three axis columns only
  when the axis is enabled; a column that the model does not have is \<open>None\<close> here
  (\<open>False\<close> for \<^verbatim>\<open>_all_subdomains\<close>). \<open>stored name\<close> is
  \<^verbatim>\<open>getattr(self, name)\<close> for a declared metadata field.
\<close>

record columns =
  u_path :: string
  u_view :: string
  u_content_type :: nat
  u_object_id :: nat
  u_content_object :: "content_object option"
  u_site :: "nat option"
  u_language :: "string option"
  u_subdomain :: "string option"
  u_all_subdomains :: bool
  stored :: "string \<Rightarrow> val"

text \<open>
  A metadata object: the class it belongs to (the model that \<^verbatim>\<open>get_model\<close> of the
  backend \<open>cls\<close> builds), its columns, and the two private attributes. An instance
  attribute \<^verbatim>\<open>__context\<close> that was never assigned is \<open>Absent\<close>.
  \<open>priv_instance\<close> is the record found under \<^verbatim>\<open>model_instance\<close> in the resolution
  context, \<open>None\<close> when there was none.
\<close>

datatype 'a attr = Absent | Present 'a

datatype mdobj =
  MdObj (cls: backend) (row: columns) (priv_context: "view_context option attr")
    (priv_instance: "mdobj option")

text \<open>The resolution context passed from one backend to the next.\<close>

datatype cval = CNone | CContentType nat | CRecord mdobj | CViewContext view_context

type_synonym resolution_context = "(string \<times> cval) list"

subsection \<open>The metadata definition: elements and their populate-from\<close>

datatype kwval = KStr string | KContentType nat | KObject "content_object option"

type_synonym kwargs = "(string \<times> kwval) list"

datatype populate =
    Callable "mdobj \<Rightarrow> kwargs \<Rightarrow> error + val"
  | Literal val
  | NotSet
  | FieldName string

record element =
  editable :: bool
  populate_from :: populate

text \<open>
  An attribute of the metadata definition object is a plain value or a callable; a
  callable is applied to the record when it has \<^verbatim>\<open>im_self\<close> and to the definition
  object otherwise.
\<close>

datatype callarg = ArgRecord mdobj | ArgMetadata

datatype md_attr = AttrValue val | AttrCallable bool "callarg \<Rightarrow> error + val"

record metadata =
  elements :: "string \<rightharpoonup> element"
  attributes :: "string \<rightharpoonup> md_attr"

subsection \<open>Value resolution\<close>

text \<open>\<^verbatim>\<open>_populate_from_kwargs\<close>, as each of the four models overrides it.\<close>

definition populate_from_kwargs :: "mdobj \<Rightarrow> kwargs" where
  "populate_from_kwargs self =
     (case cls self of
        PathBackend \<Rightarrow> [(''path'', KStr (u_path (row self)))]
      | ViewBackend \<Rightarrow> [(''view_name'', KStr (u_view (row self)))]
      | ModelInstanceBackend \<Rightarrow> [(''model_instance'', KObject (u_content_object (row self)))]
      | ModelBackend \<Rightarrow> [(''content_type'', KContentType (u_content_type (row self)))])"

text \<open>
  The last part of \<^verbatim>\<open>MetadataBaseModel._resolve_value\<close>: the attribute of the
  metadata definition, \<^verbatim>\<open>None\<close> when there is no such attribute.
\<close>

definition metadata_attribute :: "metadata \<Rightarrow> mdobj \<Rightarrow> string \<Rightarrow> error + val" where
  "metadata_attribute md self name =
     (case attributes md name of
        None \<Rightarrow> Inr VNone
      | Some (AttrValue v) \<Rightarrow> Inr v
      | Some (AttrCallable im_self f) \<Rightarrow>
          (if im_self then f (ArgRecord self) else f ArgMetadata))"

text \<open>
  \<^verbatim>\<open>MetadataBaseModel._resolve_value\<close>. The call \<^verbatim>\<open>self._resolve_value(populate_from)\<close>
  is dispatched on the class of \<^verbatim>\<open>self\<close>, which overrides the method in all four
  models; \<open>self_resolve\<close> stands for that overriding method. A result \<open>None\<close> is a call
  that does not return.
\<close>

definition MetadataBaseModel_resolve_value ::
  "(string \<Rightarrow> (error + val) option) \<Rightarrow> metadata \<Rightarrow> mdobj \<Rightarrow> string \<Rightarrow> (error + val) option"
where
  "MetadataBaseModel_resolve_value self_resolve md self name =
     (case elements md name of
        Some element \<Rightarrow>
          if editable element \<and> truthy (stored (row self) name)
          then Some (Inr (stored (row self) name))
          else (case populate_from element of
                  Callable f \<Rightarrow> Some (f self (populate_from_kwargs self))
                | Literal v \<Rightarrow> Some (Inr v)
                | FieldName other \<Rightarrow> self_resolve other
                | NotSet \<Rightarrow> Some (metadata_attribute md self name))
      | None \<Rightarrow> Some (metadata_attribute md self name))"

text \<open>
  \<^verbatim>\<open>_resolve_template\<close>. The renderer \<^verbatim>\<open>Template(value).render(context)\<close> belongs to
  Django and is a parameter: it returns the rendered text or raises. The assignment
  \<^verbatim>\<open>context[model_name] = model_instance\<close> writes into the context object that the
  record holds; every call writes the same entry, so the context is passed by value.
\<close>

type_synonym renderer = "string \<Rightarrow> view_context \<Rightarrow> error + string"

definition resolve_template ::
  "renderer \<Rightarrow> val \<Rightarrow> content_object option \<Rightarrow> view_context option \<Rightarrow> error + val"
where
  "resolve_template render value model_instance context =
     (case value of
        VStr s \<Rightarrow>
          if CHR ''{'' \<in> set s
          then (let c0 = (case context of None \<Rightarrow> [] | Some c \<Rightarrow> c);
                    c1 = (case model_instance of
                            None \<Rightarrow> c0
                          | Some m \<Rightarrow> AList.update (model_name m) (TObject m) c0)
                in (case render s c1 of Inl e \<Rightarrow> Inl e | Inr t \<Rightarrow> Inr (VStr t)))
          else Inr value
      | VNone \<Rightarrow> Inr value)"

text \<open>
  Reading \<^verbatim>\<open>self.__context\<close>. The View and Model classes declare
  \<^verbatim>\<open>__context = None\<close> in the class body, the Path and ModelInstance classes do not:
  there the read raises \<^verbatim>\<open>AttributeError\<close> until \<^verbatim>\<open>_process_context\<close> has run.
\<close>

definition get_context :: "mdobj \<Rightarrow> error + view_context option" where
  "get_context self =
     (case priv_context self of
        Present c \<Rightarrow> Inr c
      | Absent \<Rightarrow>
          (case cls self of
             PathBackend \<Rightarrow> Inl AttributeError
           | ModelInstanceBackend \<Rightarrow> Inl AttributeError
           | ViewBackend \<Rightarrow> Inr None
           | ModelBackend \<Rightarrow> Inr None))"

text \<open>
  The template call of each \<^verbatim>\<open>_resolve_value\<close> override, before any handler: the
  arguments are evaluated first, then \<^verbatim>\<open>_resolve_template\<close> runs.
\<close>

definition template_call :: "renderer \<Rightarrow> mdobj \<Rightarrow> val \<Rightarrow> error + val" where
  "template_call render self value =
     (let model_instance =
            (case cls self of
               PathBackend \<Rightarrow> None
             | ViewBackend \<Rightarrow> None
             | ModelInstanceBackend \<Rightarrow> u_content_object (row self)
             | ModelBackend \<Rightarrow>
                 (case priv_instance self of
                    None \<Rightarrow> None
                  | Some i \<Rightarrow> u_content_object (row i)))
      in (case get_context self of
            Inl e \<Rightarrow> Inl e
          | Inr c \<Rightarrow> resolve_template render value model_instance c))"

text \<open>
  The Path, View and ModelInstance overrides wrap the call in
  \<^verbatim>\<open>try: ... except AttributeError: return value\<close>; the Model override has no handler.
\<close>

definition template_step :: "renderer \<Rightarrow> mdobj \<Rightarrow> val \<Rightarrow> error + val" where
  "template_step render self value =
     (case cls self of
        ModelBackend \<Rightarrow> template_call render self value
      | _ \<Rightarrow>
          (case template_call render self value of
             Inl AttributeError \<Rightarrow> Inr value
           | r \<Rightarrow> r))"

lemma MetadataBaseModel_resolve_value_mono [partial_function_mono]:
  assumes "\<And>n. mono_option (\<lambda>f. F f n)"
  shows "mono_option (\<lambda>f. MetadataBaseModel_resolve_value (F f) md self name)"
proof -
  have "(\<exists>c. \<forall>g. MetadataBaseModel_resolve_value g md self name = Some c)
      \<or> (\<exists>other. \<forall>g. MetadataBaseModel_resolve_value g md self name = g other)"
  proof (cases "elements md name")
    case None
    then show ?thesis by (simp add: MetadataBaseModel_resolve_value_def)
  next
    case (Some element)
    show ?thesis
    proof (cases "editable element \<and> truthy (stored (row self) name)")
      case True
      with Some show ?thesis by (simp add: MetadataBaseModel_resolve_value_def)
    next
      case False
      with Some show ?thesis
        by (cases "populate_from element") (auto simp add: MetadataBaseModel_resolve_value_def)
    qed
  qed
  then show ?thesis
  proof (elim disjE exE)
    fix c
    assume "\<forall>g. MetadataBaseModel_resolve_value g md self name = Some c"
    then show ?thesis by (simp add: option.const_mono)
  next
    fix other
    assume "\<forall>g. MetadataBaseModel_resolve_value g md self name = g other"
    then show ?thesis using assms [of other] by simp
  qed
qed

text \<open>
  What an override does with the outcome of the base method: the call of the base
  method stands outside the \<^verbatim>\<open>try\<close> block, so its exception passes through; its
  value goes through the template step.
\<close>

definition override_step :: "renderer \<Rightarrow> mdobj \<Rightarrow> error + val \<Rightarrow> error + val" where
  "override_step render self r =
     (case r of Inl e \<Rightarrow> Inl e | Inr value \<Rightarrow> template_step render self value)"

text \<open>
  \<^verbatim>\<open>_resolve_value\<close> as a record of class \<open>cls self\<close> runs it: the method of the base
  class, whose recursive call comes back to the override, then the step of the
  override. Fields that name each other in a cycle make the recursion unbounded
  (Python ends it when the stack is used up); the result is \<open>None\<close> then.
\<close>

partial_function (option) resolve_value ::
  "renderer \<Rightarrow> metadata \<Rightarrow> mdobj \<Rightarrow> string \<Rightarrow> (error + val) option"
where
  "resolve_value render md self name =
     Option.bind
       (MetadataBaseModel_resolve_value (\<lambda>other. resolve_value render md self other) md self name)
       (\<lambda>r. Some (override_step render self r))"

subsection \<open>The query scope of a manager\<close>

text \<open>
  The argument \<^verbatim>\<open>site\<close> is \<^verbatim>\<open>None\<close>, a \<^verbatim>\<open>Site\<close> instance (given by its id) or
  anything else, which is taken as a domain name. The table of sites holds the id and
  the domain of each site.
\<close>

datatype site_arg = SiteInstance nat | SiteDomain string

datatype sql_param = IdParam nat | TextParam string

definition Site_objects_get :: "(nat \<times> string) list \<Rightarrow> string \<Rightarrow> error + nat" where
  "Site_objects_get sites domain =
     (case filter (\<lambda>s. snd s = domain) sites of
        [] \<Rightarrow> Inl DoesNotExist
      | [s] \<Rightarrow> Inr (fst s)
      | _ \<Rightarrow> Inl MultipleObjectsReturned)"

text \<open>
  The head of \<^verbatim>\<open>on_current_site\<close>. In \<^verbatim>\<open>site and Site.objects.get(domain=site).id\<close>
  an empty domain is falsy and becomes the parameter itself.
\<close>

definition site_id_of ::
  "nat \<Rightarrow> (nat \<times> string) list \<Rightarrow> site_arg option \<Rightarrow> error + sql_param"
where
  "site_id_of SITE_ID sites site =
     (case site of
        Some (SiteInstance i) \<Rightarrow> Inr (IdParam i)
      | Some (SiteDomain d) \<Rightarrow>
          if d = [] then Inr (TextParam d)
          else (case Site_objects_get sites d of
                  Inl e \<Rightarrow> Inl e
                | Inr i \<Rightarrow> Inr (IdParam i))
      | None \<Rightarrow> Inr (IdParam SITE_ID))"

text \<open>
  The condition \<^verbatim>\<open>_site_id IS NULL OR _site_id=%s\<close> on one row. A text parameter
  equals no site id.
\<close>

definition where_site :: "sql_param \<Rightarrow> mdobj \<Rightarrow> bool" where
  "where_site site_id r =
     (case u_site (row r) of None \<Rightarrow> True | Some i \<Rightarrow> site_id = IdParam i)"

definition on_current_site ::
  "nat \<Rightarrow> (nat \<times> string) list \<Rightarrow> mdobj list \<Rightarrow> site_arg option \<Rightarrow> error + mdobj list"
where
  "on_current_site SITE_ID sites table site =
     (case site_id_of SITE_ID sites site of
        Inl e \<Rightarrow> Inl e
      | Inr site_id \<Rightarrow> Inr (filter (where_site site_id) table))"

text \<open>
  The two filters that both versions of \<^verbatim>\<open>by_params\<close> apply. \<^verbatim>\<open>filter\<close> on a column
  that the model was built without raises \<^verbatim>\<open>FieldError\<close>. \<^verbatim>\<open>order_by\<close> sorts on the
  flag with \<open>False\<close> first; the order among rows with the same flag is left to the
  database, here it is the order of the table.
\<close>

definition filter_language :: "options \<Rightarrow> string option \<Rightarrow> mdobj list \<Rightarrow> error + mdobj list" where
  "filter_language opts language queryset =
     (case language of
        None \<Rightarrow> Inr queryset
      | Some l \<Rightarrow>
          if l = [] then Inr queryset
          else if use_i18n opts
          then Inr (filter (\<lambda>r. u_language (row r) = Some l) queryset)
          else Inl FieldError)"

definition filter_subdomain :: "options \<Rightarrow> string option \<Rightarrow> mdobj list \<Rightarrow> error + mdobj list" where
  "filter_subdomain opts subdomain queryset =
     (case subdomain of
        None \<Rightarrow> Inr queryset
      | Some sd \<Rightarrow>
          if use_subdomains opts
          then Inr (sort_key (\<lambda>r. u_all_subdomains (row r))
                 (filter (\<lambda>r. u_subdomain (row r) = Some sd \<or> u_all_subdomains (row r)) queryset))
          else Inl FieldError)"

text \<open>\<^verbatim>\<open>BaseManager.by_params\<close>, for a model built with the options \<open>opts\<close>.\<close>

definition BaseManager_by_params ::
  "options \<Rightarrow> nat \<Rightarrow> (nat \<times> string) list \<Rightarrow> mdobj list \<Rightarrow>
   site_arg option \<Rightarrow> string option \<Rightarrow> string option \<Rightarrow> error + mdobj list"
where
  "BaseManager_by_params opts SITE_ID sites table site language subdomain =
     (case on_current_site SITE_ID sites table site of
        Inl e \<Rightarrow> Inl e
      | Inr queryset \<Rightarrow>
          (case filter_language opts language queryset of
             Inl e \<Rightarrow> Inl e
           | Inr queryset' \<Rightarrow> filter_subdomain opts subdomain queryset'))"

text \<open>
  \<^verbatim>\<open>get_manager\<close>: the manager class overrides \<^verbatim>\<open>by_params\<close> when sites are not in
  use, and starts from all rows then.
\<close>

definition by_params ::
  "options \<Rightarrow> nat \<Rightarrow> (nat \<times> string) list \<Rightarrow> mdobj list \<Rightarrow>
   site_arg option \<Rightarrow> string option \<Rightarrow> string option \<Rightarrow> error + mdobj list"
where
  "by_params opts SITE_ID sites table site language subdomain =
     (if \<not> use_sites opts
      then (case filter_language opts language table of
              Inl e \<Rightarrow> Inl e
            | Inr queryset' \<Rightarrow> filter_subdomain opts subdomain queryset')
      else BaseManager_by_params opts SITE_ID sites table site language subdomain)"

text \<open>
  The visibility rule in the words of the specification, for the requested site id
  \<open>sid\<close> (the outcome of \<open>site_id_of\<close>), language and subdomain: the site of the
  row is null or the requested one; a requested language is the language of the row;
  a requested subdomain is the subdomain of the row, or the row has the flag.
  A language is requested when it is a non-empty text, a subdomain when it is not
  \<^verbatim>\<open>None\<close>.
\<close>

definition visible :: "error + sql_param \<Rightarrow> string option \<Rightarrow> string option \<Rightarrow> mdobj \<Rightarrow> bool" where
  "visible sid language subdomain r \<longleftrightarrow>
     (case u_site (row r) of None \<Rightarrow> True | Some i \<Rightarrow> sid = Inr (IdParam i))
     \<and> (case language of
          None \<Rightarrow> True
        | Some l \<Rightarrow> l = [] \<or> u_language (row r) = Some l)
     \<and> (case subdomain of
          None \<Rightarrow> True
        | Some sd \<Rightarrow> u_subdomain (row r) = Some sd \<or> u_all_subdomains (row r))"

subsection \<open>Matching and the resolution context\<close>

text \<open>
  \<^verbatim>\<open>context.get('view_context')\<close> as the value of \<^verbatim>\<open>__context\<close>: the rendering context
  found under the key, \<^verbatim>\<open>None\<close> when the key is missing or holds \<^verbatim>\<open>None\<close>. A value of
  another kind under that key is not a rendering context and is taken as \<^verbatim>\<open>None\<close> too.
\<close>

definition get_view_context :: "resolution_context \<Rightarrow> view_context option" where
  "get_view_context context =
     (case map_of context ''view_context'' of
        Some (CViewContext vc) \<Rightarrow> Some vc
      | _ \<Rightarrow> None)"

text \<open>
  \<^verbatim>\<open>_process_context\<close> of the four models. The ModelInstance model also writes its
  content type and itself into the context; the Model model keeps the record found
  under \<^verbatim>\<open>model_instance\<close>.
\<close>

definition set_priv_context :: "mdobj \<Rightarrow> view_context option \<Rightarrow> mdobj" where
  "set_priv_context self c = MdObj (cls self) (row self) (Present c) (priv_instance self)"

definition ModelInstance_process_context ::
  "mdobj \<Rightarrow> resolution_context \<Rightarrow> mdobj \<times> resolution_context"
where
  "ModelInstance_process_context self context =
     (let self' = set_priv_context self (get_view_context context);
          context' = AList.update ''content_type'' (CContentType (u_content_type (row self'))) context;
          context'' = AList.update ''model_instance'' (CRecord self') context'
      in (self', context''))"

definition Model_process_context ::
  "mdobj \<Rightarrow> resolution_context \<Rightarrow> mdobj \<times> resolution_context"
where
  "Model_process_context self context =
     (let instance = (case map_of context ''model_instance'' of
                        Some (CRecord i) \<Rightarrow> Some i
                      | _ \<Rightarrow> None)
      in (MdObj (cls self) (row self) (Present (get_view_context context)) instance, context))"

definition process_context :: "mdobj \<Rightarrow> resolution_context \<Rightarrow> mdobj \<times> resolution_context" where
  "process_context self context =
     (case cls self of
        PathBackend \<Rightarrow> (set_priv_context self (get_view_context context), context)
      | ViewBackend \<Rightarrow> (set_priv_context self (get_view_context context), context)
      | ModelInstanceBackend \<Rightarrow> ModelInstance_process_context self context
      | ModelBackend \<Rightarrow> Model_process_context self context)"

text \<open>
  \<^verbatim>\<open>get_instances\<close> of the four backends. The result \<open>None\<close> is the \<^verbatim>\<open>None\<close> that
  \<^verbatim>\<open>ModelBackend.get_instances\<close> returns when it has no content type; the other
  backends always return a queryset. The path may be \<^verbatim>\<open>None\<close>, which no row has.
  \<open>resolve_to_name\<close> is the URL resolver of \<^verbatim>\<open>djangoseo.utils\<close>, a parameter.
\<close>

definition PathBackend_get_instances ::
  "mdobj list \<Rightarrow> string option \<Rightarrow> resolution_context option \<Rightarrow> mdobj list"
where
  "PathBackend_get_instances queryset path context =
     filter (\<lambda>r. Some (u_path (row r)) = path) queryset"

definition ViewBackend_get_instances ::
  "(string \<Rightarrow> string option) \<Rightarrow> mdobj list \<Rightarrow> string option \<Rightarrow> resolution_context option
   \<Rightarrow> mdobj list"
where
  "ViewBackend_get_instances resolve_to_name queryset path context =
     (let view_name = (case path of None \<Rightarrow> Some [] | Some p \<Rightarrow> resolve_to_name p)
      in filter (\<lambda>r. u_view (row r) = (case view_name of None \<Rightarrow> [] | Some v \<Rightarrow> v)) queryset)"

definition ModelInstanceBackend_get_instances ::
  "mdobj list \<Rightarrow> string option \<Rightarrow> resolution_context option \<Rightarrow> mdobj list"
where
  "ModelInstanceBackend_get_instances queryset path context =
     filter (\<lambda>r. Some (u_path (row r)) = path) queryset"

text \<open>
  The truth value of an entry of the resolution context, and of the \<^verbatim>\<open>object\<close> entry
  of the rendering context.
\<close>

fun truthy_cval :: "cval \<Rightarrow> bool" where
  "truthy_cval CNone = False"
| "truthy_cval (CViewContext vc) = (vc \<noteq> [])"
| "truthy_cval (CContentType ct) = True"
| "truthy_cval (CRecord r) = True"

fun truthy_tval :: "tval \<Rightarrow> bool" where
  "truthy_tval (TStr s) = (s \<noteq> [])"
| "truthy_tval (TObject obj) = True"

text \<open>
  The content type that \<^verbatim>\<open>ModelBackend.get_instances\<close> settles on, \<open>CNone\<close> for
  \<^verbatim>\<open>None\<close>. \<^verbatim>\<open>get_for_model\<close> needs a model object; on a text it raises
  \<^verbatim>\<open>AttributeError\<close>, as does \<^verbatim>\<open>.get\<close> on an entry that is no dictionary.
\<close>

definition context_content_type :: "resolution_context \<Rightarrow> error + cval" where
  "context_content_type context =
     (case map_of context ''content_type'' of
        Some v \<Rightarrow> Inr v
      | None \<Rightarrow>
          (case map_of context ''view_context'' of
             None \<Rightarrow> Inr CNone
           | Some view_context \<Rightarrow>
               if \<not> truthy_cval view_context then Inr CNone
               else (case view_context of
                       CViewContext vc \<Rightarrow>
                         (case map_of vc ''object'' of
                            None \<Rightarrow> Inr CNone
                          | Some instance \<Rightarrow>
                              if \<not> truthy_tval instance then Inr CNone
                              else (case instance of
                                      TObject obj \<Rightarrow> Inr (CContentType (content_type_id obj))
                                    | TStr s \<Rightarrow> Inl AttributeError))
                     | _ \<Rightarrow> Inl AttributeError)))"

definition ModelBackend_get_instances ::
  "mdobj list \<Rightarrow> string option \<Rightarrow> resolution_context option \<Rightarrow> error + mdobj list option"
where
  "ModelBackend_get_instances queryset path context =
     (case context of
        None \<Rightarrow> Inr None
      | Some ctx \<Rightarrow>
          if ctx = [] then Inr None
          else (case context_content_type ctx of
                  Inl e \<Rightarrow> Inl e
                | Inr content_type \<Rightarrow>
                    if \<not> truthy_cval content_type then Inr None
                    else (case content_type of
                            CContentType ct \<Rightarrow>
                              Inr (Some (filter (\<lambda>r. u_content_type (row r) = ct) queryset))
                          | _ \<Rightarrow> Inl ValueError)))"

subsection \<open>Saving\<close>

text \<open>
  \<^verbatim>\<open>Model.save\<close> of Django, which the two \<^verbatim>\<open>save\<close> methods end with, is a parameter
  \<open>super_save\<close>: from the stored rows and the record it gives the new rows or raises.
  A save that raises leaves the rows as they were.
\<close>

type_synonym 'db saver = "'db \<Rightarrow> mdobj \<Rightarrow> error + 'db"

definition set_path :: "mdobj \<Rightarrow> string \<Rightarrow> mdobj" where
  "set_path self p = MdObj (cls self) ((row self)\<lparr>u_path := p\<rparr>) (priv_context self) (priv_instance self)"

text \<open>
  The first \<^verbatim>\<open>try\<close> statement of \<^verbatim>\<open>ModelInstanceMetadataBase.save\<close>. Reading
  \<^verbatim>\<open>get_absolute_url\<close> raises \<^verbatim>\<open>AttributeError\<close> when the content object is \<^verbatim>\<open>None\<close>
  or has no such attribute, and the handler passes. The call \<^verbatim>\<open>path_func()\<close> stands in
  the \<^verbatim>\<open>else\<close> branch: what it raises is not handled.
\<close>

definition derive_path :: "mdobj \<Rightarrow> error + mdobj" where
  "derive_path self =
     (case u_content_object (row self) of
        None \<Rightarrow> Inr self
      | Some obj \<Rightarrow>
          (case get_absolute_url obj of
             NoAttribute \<Rightarrow> Inr self
           | Method path_func \<Rightarrow>
               (case path_func of
                  Inl e \<Rightarrow> Inl e
                | Inr p \<Rightarrow> Inr (set_path self p))))"

definition ModelInstance_save :: "'db saver \<Rightarrow> 'db \<Rightarrow> mdobj \<Rightarrow> error + mdobj \<times> 'db" where
  "ModelInstance_save super_save db self =
     (case derive_path self of
        Inl e \<Rightarrow> Inl e
      | Inr self' \<Rightarrow>
          (case super_save db self' of
             Inl IntegrityError \<Rightarrow> Inr (self', db)
           | Inl e \<Rightarrow> Inl e
           | Inr db' \<Rightarrow> Inr (self', db')))"

text \<open>
  A store for new rows with the composite uniqueness constraint: the rows are a list,
  and saving a row that agrees with a stored row on every field of one of the
  \<^verbatim>\<open>unique_together\<close> tuples raises \<^verbatim>\<open>IntegrityError\<close>, unless one of these fields
  is null in the row: the database takes null values as distinct, so a key with a null
  column collides with no other key.
\<close>

datatype colval = ColNull | ColText string | ColNat nat

definition column :: "string \<Rightarrow> mdobj \<Rightarrow> colval" where
  "column field r =
     (if field = ''_path'' then ColText (u_path (row r))
      else if field = ''_view'' then ColText (u_view (row r))
      else if field = ''_content_type'' then ColNat (u_content_type (row r))
      else if field = ''_object_id'' then ColNat (u_object_id (row r))
      else if field = ''_site'' then (case u_site (row r) of None \<Rightarrow> ColNull | Some i \<Rightarrow> ColNat i)
      else if field = ''_language''
        then (case u_language (row r) of None \<Rightarrow> ColNull | Some l \<Rightarrow> ColText l)
      else if field = ''_subdomain''
        then (case u_subdomain (row r) of None \<Rightarrow> ColNull | Some s \<Rightarrow> ColText s)
      else ColNull)"

definition key_of :: "string list \<Rightarrow> mdobj \<Rightarrow> colval list" where
  "key_of ut_set r = map (\<lambda>field. column field r) ut_set"

definition violates :: "string list list \<Rightarrow> mdobj list \<Rightarrow> mdobj \<Rightarrow> bool" where
  "violates ut db r =
     list_ex (\<lambda>ut_set.
         ColNull \<notin> set (key_of ut_set r)
         \<and> list_ex (\<lambda>r'. key_of ut_set r' = key_of ut_set r) db) ut"

definition Model_save :: "string list list \<Rightarrow> mdobj list saver" where
  "Model_save ut db r = (if violates ut db r then Inl IntegrityError else Inr (db @ [r]))"

subsection \<open>Canonical paths\<close>

text \<open>
  The six components that \<^verbatim>\<open>urlparse\<close> returns; \<^verbatim>\<open>parsed[2]\<close> is the path and
  \<^verbatim>\<open>parsed[4]\<close> the query. The four functions of Python's \<^verbatim>\<open>urllib\<close> that the code
  calls are parameters.
\<close>

record parse_result =
  pr_scheme :: string
  pr_netloc :: string
  pr_path :: string
  pr_params :: string
  pr_query :: string
  pr_fragment :: string

record urllib =
  urlparse :: "string \<Rightarrow> parse_result"
  parse_qsl :: "string \<Rightarrow> (string \<times> string) list"
  urlencode :: "(string \<times> string) list \<Rightarrow> string"
  geturl :: "parse_result \<Rightarrow> string"

text \<open>\<^verbatim>\<open>os.path.join\<close> of \<^verbatim>\<open>posixpath\<close>.\<close>

fun os_path_join :: "string \<Rightarrow> string list \<Rightarrow> string" where
  "os_path_join a [] = a"
| "os_path_join a (b # p) =
     os_path_join
       (if b \<noteq> [] \<and> hd b = CHR ''/'' then b
        else if a = [] \<or> last a = CHR ''/'' then a @ b
        else a @ ''/'' @ b) p"

text \<open>
  The rewriting of the path that \<^verbatim>\<open>PathMetadataBase.save\<close> and \<^verbatim>\<open>MetadataNode.render\<close>
  both carry out: the result is the new value of the path. The assignment to the path
  stands inside \<^verbatim>\<open>if parsed[4]\<close>.
\<close>

definition canonical_path :: "urllib \<Rightarrow> bool \<Rightarrow> string \<Rightarrow> string" where
  "canonical_path lib APPEND_SLASH p =
     (let parsed = urlparse lib p;
          parsed =
            (if APPEND_SLASH
             then (if pr_path parsed \<noteq> []
                   then parsed\<lparr>pr_path := os_path_join (pr_path parsed) ['''', '''']\<rparr>
                   else parsed)
             else parsed)
      in if pr_query parsed \<noteq> []
         then (let query_string = parse_qsl lib (pr_query parsed);
                   sorted_qs = sort_key fst query_string;
                   new_qs = urlencode lib sorted_qs;
                   parsed = parsed\<lparr>pr_query := new_qs\<rparr>
               in geturl lib parsed)
         else p)"

definition PathMetadataBase_save ::
  "urllib \<Rightarrow> bool \<Rightarrow> 'db saver \<Rightarrow> 'db \<Rightarrow> mdobj \<Rightarrow> error + mdobj \<times> 'db"
where
  "PathMetadataBase_save lib APPEND_SLASH super_save db self =
     (let self' = set_path self (canonical_path lib APPEND_SLASH (u_path (row self)))
      in (case super_save db self' of
            Inl e \<Rightarrow> Inl e
          | Inr db' \<Rightarrow> Inr (self', db')))"

text \<open>
  The path that \<^verbatim>\<open>MetadataNode.render\<close> looks up for a text target: the entry
  \<^verbatim>\<open>current_path\<close> of the template context when there is one, the target otherwise,
  rewritten in the same way.
\<close>

definition MetadataNode_render_path :: "urllib \<Rightarrow> bool \<Rightarrow> string option \<Rightarrow> string \<Rightarrow> string" where
  "MetadataNode_render_path lib APPEND_SLASH current_path target =
     canonical_path lib APPEND_SLASH (case current_path of None \<Rightarrow> target | Some p \<Rightarrow> p)"

text \<open>
  The canonical components in the words of the specification, as far as the code
  follows them: a slash appended to a path component that is not empty and does not
  end in one, and the pairs of the query sorted by key and encoded again.
\<close>

definition canonical_parts :: "urllib \<Rightarrow> bool \<Rightarrow> parse_result \<Rightarrow> parse_result" where
  "canonical_parts lib APPEND_SLASH parsed =
     parsed\<lparr>pr_path :=
              (if APPEND_SLASH \<and> pr_path parsed \<noteq> [] \<and> last (pr_path parsed) \<noteq> CHR ''/''
               then pr_path parsed @ ''/'' else pr_path parsed),
            pr_query := urlencode lib (sort_key fst (parse_qsl lib (pr_query parsed)))\<rparr>"

subsection \<open>Example data\<close>

text \<open>
  A renderer for the examples. On a template that is one variable tag it returns the
  text bound to the variable, the empty text when the variable is unbound; on
  \<^verbatim>\<open>{% endif %}\<close>, a block tag without its opening tag, it raises the syntax error;
  any other text is returned as it is. Django's renderer does the same on these
  templates, and does not render the substituted text again.
\<close>

definition variable_tag :: "string \<Rightarrow> string option" where
  "variable_tag s =
     (if 6 \<le> length s \<and> take 3 s = ''{{ '' \<and> drop (length s - 3) s = '' }}''
      then Some (take (length s - 6) (drop 3 s)) else None)"

definition example_render :: renderer where
  "example_render s c =
     (case variable_tag s of
        Some v \<Rightarrow> Inr (case map_of c v of Some (TStr x) \<Rightarrow> x | _ \<Rightarrow> [])
      | None \<Rightarrow> if s = ''{% endif %}'' then Inl TemplateSyntaxError else Inr s)"

definition example_metadata :: metadata where
  "example_metadata =
     \<lparr>elements =
        [''title'' \<mapsto> \<lparr>editable = True, populate_from = Literal (VStr ''Site'')\<rparr>,
         ''og_title'' \<mapsto> \<lparr>editable = True, populate_from = FieldName ''title''\<rparr>,
         ''description'' \<mapsto> \<lparr>editable = True, populate_from =
            Callable (\<lambda>self kw. case map_of kw ''path'' of
                                   Some (KStr p) \<Rightarrow> Inr (VStr (''About '' @ p))
                                 | _ \<Rightarrow> Inr VNone)\<rparr>],
      attributes = Map.empty\<rparr>"

definition example_columns :: "(string \<Rightarrow> val) \<Rightarrow> columns" where
  "example_columns values =
     \<lparr>u_path = ''/x/'', u_view = '''', u_content_type = 0, u_object_id = 0,
      u_content_object = None, u_site = None, u_language = None, u_subdomain = None,
      u_all_subdomains = False, stored = values\<rparr>"

definition example_path_record :: "string \<Rightarrow> mdobj" where
  "example_path_record title =
     MdObj PathBackend
       (example_columns (\<lambda>n. if n = ''title'' then VStr title else VNone))
       (Present (Some [(''t'', TStr ''{{ u }}'')])) None"

text \<open>
  The same columns in a record of the Model class, and in a Path record whose
  \<^verbatim>\<open>_process_context\<close> has not run.
\<close>

definition example_model_record :: "string \<Rightarrow> mdobj" where
  "example_model_record title =
     MdObj ModelBackend
       (example_columns (\<lambda>n. if n = ''title'' then VStr title else VNone))
       Absent None"

definition example_unprocessed_record :: "string \<Rightarrow> mdobj" where
  "example_unprocessed_record title =
     MdObj PathBackend
       (example_columns (\<lambda>n. if n = ''title'' then VStr title else VNone))
       Absent None"

text \<open>
  A library for the examples. It does what Python's \<^verbatim>\<open>urllib\<close> does on a text
  \<^verbatim>\<open>path?query\<close> without scheme, host, parameters and fragment, whose keys and values
  are letters and digits: the text is split at the first \<^verbatim>\<open>?\<close>, the query at every
  \<^verbatim>\<open>&\<close>, a pair at its first \<^verbatim>\<open>=\<close>; a pair without \<^verbatim>\<open>=\<close> or with an empty value is
  dropped.
\<close>

fun split_on :: "char \<Rightarrow> string \<Rightarrow> string list" where
  "split_on c [] = [[]]"
| "split_on c (x # xs) =
     (if x = c then [] # split_on c xs
      else (case split_on c xs of [] \<Rightarrow> [[x]] | w # ws \<Rightarrow> (x # w) # ws))"

definition example_urlparse :: "string \<Rightarrow> parse_result" where
  "example_urlparse url =
     \<lparr>pr_scheme = [], pr_netloc = [],
      pr_path = takeWhile (\<lambda>c. c \<noteq> CHR ''?'') url,
      pr_params = [],
      pr_query = drop 1 (dropWhile (\<lambda>c. c \<noteq> CHR ''?'') url),
      pr_fragment = []\<rparr>"

definition example_parse_qsl :: "string \<Rightarrow> (string \<times> string) list" where
  "example_parse_qsl qs =
     map (\<lambda>nv. (takeWhile (\<lambda>c. c \<noteq> CHR ''='') nv, drop 1 (dropWhile (\<lambda>c. c \<noteq> CHR ''='') nv)))
       (filter (\<lambda>nv. drop 1 (dropWhile (\<lambda>c. c \<noteq> CHR ''='') nv) \<noteq> []) (split_on CHR ''&'' qs))"

fun example_urlencode :: "(string \<times> string) list \<Rightarrow> string" where
  "example_urlencode [] = []"
| "example_urlencode [(k, v)] = k @ ''='' @ v"
| "example_urlencode ((k, v) # kvs) = k @ ''='' @ v @ ''&'' @ example_urlencode kvs"

definition example_geturl :: "parse_result \<Rightarrow> string" where
  "example_geturl parsed =
     pr_path parsed @ (if pr_query parsed = [] then [] else ''?'' @ pr_query parsed)"

definition example_urllib :: urllib where
  "example_urllib =
     \<lparr>urlparse = example_urlparse, parse_qsl = example_parse_qsl,
      urlencode = example_urlencode, geturl = example_geturl\<rparr>"

text \<open>Rows and options for the examples of the query scope, the matching and the store.\<close>

definition example_record ::
  "backend \<Rightarrow> nat \<Rightarrow> nat \<Rightarrow> nat option \<Rightarrow> string option \<Rightarrow> bool \<Rightarrow> mdobj" where
  "example_record c ct oid site subdomain all_subdomains =
     MdObj c
       \<lparr>u_path = ''/x/'', u_view = [], u_content_type = ct, u_object_id = oid,
        u_content_object = None, u_site = site, u_language = None, u_subdomain = subdomain,
        u_all_subdomains = all_subdomains, stored = (\<lambda>n. VNone)\<rparr>
       Absent None"

definition example_options :: options where
  "example_options =
     \<lparr>use_sites = True, use_i18n = True, use_subdomains = True,
      backends = [''path'', ''modelinstance'', ''model'']\<rparr>"

section \<open>Properties\<close>

subsection \<open>Composite uniqueness derivation\<close>

lemma ut_loop_map: "ut_loop opts ut sets = ut @ map (extend_ut_set opts) sets"
  by (induction sets arbitrary: ut) simp_all

lemma extend_ut_set_axis: "extend_ut_set opts ut_set = ut_set @ axis_fields opts"
  by (simp add: extend_ut_set_def axis_fields_def Let_def)

text \<open>
  C7. For every backend and every options value, \<^verbatim>\<open>get_unique_together\<close> returns the
  declared tuples of the backend, in their order, each followed by the axis fields:
  \<^verbatim>\<open>_site\<close> is among the appended fields iff \<^verbatim>\<open>use_sites\<close> holds, \<^verbatim>\<open>_language\<close> iff
  \<^verbatim>\<open>use_i18n\<close> holds and \<^verbatim>\<open>_subdomain\<close> iff \<^verbatim>\<open>use_subdomains\<close> holds.
\<close>

theorem get_unique_together_axes:
  "get_unique_together b opts = map (\<lambda>ut_set. ut_set @ axis_fields opts) (unique_together b)
   \<and> (''_site'' \<in> set (axis_fields opts) \<longleftrightarrow> use_sites opts)
   \<and> (''_language'' \<in> set (axis_fields opts) \<longleftrightarrow> use_i18n opts)
   \<and> (''_subdomain'' \<in> set (axis_fields opts) \<longleftrightarrow> use_subdomains opts)"
  by (auto simp add: get_unique_together_def ut_loop_map extend_ut_set_axis axis_fields_def)

theorem get_unique_together_axes_witness:
  "get_unique_together ModelInstanceBackend
     \<lparr>use_sites = True, use_i18n = False, use_subdomains = True, backends = []\<rparr>
   = [[''_path'', ''_site'', ''_subdomain''],
      [''_content_type'', ''_object_id'', ''_site'', ''_subdomain'']]"
  using get_unique_together_axes [of ModelInstanceBackend
    "\<lparr>use_sites = True, use_i18n = False, use_subdomains = True, backends = []\<rparr>"]
  by (simp add: axis_fields_def)

subsection \<open>Backend ordering\<close>

lemma index_order:
  "m \<noteq> x \<Longrightarrow> x \<notin> set pre \<Longrightarrow>
   (case index (pre @ m # post) x of
      Inl e \<Rightarrow> True
    | Inr i \<Rightarrow> (case index (pre @ m # post) m of Inl e \<Rightarrow> True | Inr j \<Rightarrow> i > j))"
  by (induction pre) (auto split: sum.splits)

text \<open>
  C5. Validation of the Model backend fails with an error when the active backend list
  has an occurrence of \<^verbatim>\<open>model\<close> with no \<^verbatim>\<open>modelinstance\<close> before it: that is the
  list with \<^verbatim>\<open>model\<close> before \<^verbatim>\<open>modelinstance\<close> and the list with \<^verbatim>\<open>model\<close> and no
  \<^verbatim>\<open>modelinstance\<close> at all. The list \<^verbatim>\<open>["modelinstance", "model"]\<close> is accepted. The
  check reads the options only, nothing of a request.
\<close>

theorem ModelBackend_validate_order:
  "((\<exists>pre post. backends opts = pre @ ''model'' # post \<and> ''modelinstance'' \<notin> set pre)
      \<longrightarrow> (\<exists>e. validate ModelBackend opts = Inl e))
   \<and> (backends opts = [''modelinstance'', ''model''] \<longrightarrow> validate ModelBackend opts = Inr ())"
proof (intro conjI impI)
  assume "\<exists>pre post. backends opts = pre @ ''model'' # post \<and> ''modelinstance'' \<notin> set pre"
  then obtain pre post where bs: "backends opts = pre @ ''model'' # post"
    and pre: "''modelinstance'' \<notin> set pre" by blast
  have "''model'' \<noteq> ''modelinstance''" by simp
  from index_order [OF this pre, of post]
  show "\<exists>e. validate ModelBackend opts = Inl e"
    by (auto simp: ModelBackend_validate_def bs split: sum.splits)
next
  assume "backends opts = [''modelinstance'', ''model'']"
  then show "validate ModelBackend opts = Inr ()"
    by (simp add: ModelBackend_validate_def)
qed

theorem ModelBackend_validate_order_witness:
  "(\<exists>e. validate ModelBackend \<lparr>use_sites = True, use_i18n = False, use_subdomains = False,
        backends = [''model'', ''modelinstance'']\<rparr> = Inl e)
   \<and> (\<exists>e. validate ModelBackend \<lparr>use_sites = True, use_i18n = False, use_subdomains = False,
        backends = [''path'', ''model'']\<rparr> = Inl e)
   \<and> validate ModelBackend \<lparr>use_sites = True, use_i18n = False, use_subdomains = False,
        backends = [''modelinstance'', ''model'']\<rparr> = Inr ()"
proof -
  let ?o1 = "\<lparr>use_sites = True, use_i18n = False, use_subdomains = False,
        backends = [''model'', ''modelinstance'']\<rparr>"
  let ?o2 = "\<lparr>use_sites = True, use_i18n = False, use_subdomains = False,
        backends = [''path'', ''model'']\<rparr>"
  let ?o3 = "\<lparr>use_sites = True, use_i18n = False, use_subdomains = False,
        backends = [''modelinstance'', ''model'']\<rparr>"
  have a: "\<exists>pre post. backends ?o1 = pre @ ''model'' # post \<and> ''modelinstance'' \<notin> set pre"
    by (rule exI [of _ "[]"], rule exI [of _ "[''modelinstance'']"]) simp
  have b: "\<exists>pre post. backends ?o2 = pre @ ''model'' # post \<and> ''modelinstance'' \<notin> set pre"
    by (rule exI [of _ "[''path'']"], rule exI [of _ "[]"]) simp
  have c: "backends ?o3 = [''modelinstance'', ''model'']" by simp
  from ModelBackend_validate_order [of ?o1] a
    ModelBackend_validate_order [of ?o2] b
    ModelBackend_validate_order [of ?o3] c
  show ?thesis by blast
qed

subsection \<open>Value resolution\<close>

lemmas example_defs =
  example_metadata_def example_path_record_def example_columns_def example_render_def
  variable_tag_def example_model_record_def example_unprocessed_record_def

lemmas resolve_defs =
  MetadataBaseModel_resolve_value_def override_step_def template_step_def template_call_def
  get_context_def resolve_template_def populate_from_kwargs_def metadata_attribute_def

lemma resolve_value_unfold:
  "resolve_value render md self name =
     Option.bind (MetadataBaseModel_resolve_value (resolve_value render md self) md self name)
       (\<lambda>r. Some (override_step render self r))"
  by (subst resolve_value.simps) simp

text \<open>
  C1. For every metadata record and every declared field name: if the field is editable
  and the record stores a non-empty text for it, \<^verbatim>\<open>MetadataBaseModel._resolve_value\<close>
  returns that stored text as it is, whatever populate-from the field declares.
\<close>

theorem resolve_stored_value_first:
  "elements md name = Some element \<Longrightarrow> editable element \<Longrightarrow>
   stored (row self) name = VStr s \<Longrightarrow> s \<noteq> [] \<Longrightarrow>
   MetadataBaseModel_resolve_value self_resolve md self name = Some (Inr (VStr s))"
  by (simp add: MetadataBaseModel_resolve_value_def)

theorem resolve_stored_value_first_witness:
  "MetadataBaseModel_resolve_value (\<lambda>n. None) example_metadata
     (example_path_record ''Hello'') ''title'' = Some (Inr (VStr ''Hello''))
   \<and> populate_from (the (elements example_metadata ''title'')) = Literal (VStr ''Site'')"
  using resolve_stored_value_first [of example_metadata "''title''"
      "\<lparr>editable = True, populate_from = Literal (VStr ''Site'')\<rparr>"
      "example_path_record ''Hello''" "''Hello''" "\<lambda>n. None"]
  by (simp add: example_metadata_def example_path_record_def example_columns_def)

text \<open>
  On a record of one of the four classes the override then passes that value through
  its template step.
\<close>

lemma resolve_value_stored:
  "elements md name = Some element \<Longrightarrow> editable element \<Longrightarrow>
   stored (row self) name = VStr s \<Longrightarrow> s \<noteq> [] \<Longrightarrow>
   resolve_value render md self name = Some (template_step render self (VStr s))"
  by (subst resolve_value_unfold)
    (simp add: MetadataBaseModel_resolve_value_def override_step_def)

text \<open>
  C2. For every editable declared field whose stored value is empty (the empty text or
  \<^verbatim>\<open>None\<close>) and whose populate-from is a callable,
  \<^verbatim>\<open>MetadataBaseModel._resolve_value\<close> returns what the callable returns when called with
  the record and the keyword arguments of the record's class; the empty stored value
  is not returned in its place.
\<close>

theorem resolve_populate_from_callable:
  "elements md name = Some element \<Longrightarrow> editable element \<Longrightarrow>
   stored (row self) name = VNone \<or> stored (row self) name = VStr [] \<Longrightarrow>
   populate_from element = Callable f \<Longrightarrow>
   MetadataBaseModel_resolve_value self_resolve md self name
     = Some (f self (populate_from_kwargs self))"
  by (auto simp add: MetadataBaseModel_resolve_value_def)

theorem resolve_populate_from_callable_witness:
  "MetadataBaseModel_resolve_value (\<lambda>n. None) example_metadata
     (example_path_record ''Hello'') ''description'' = Some (Inr (VStr ''About /x/''))"
  using resolve_populate_from_callable [of example_metadata "''description''"
      "the (elements example_metadata ''description'')"
      "example_path_record ''Hello''" _ "\<lambda>n. None"]
  by (simp add: example_defs populate_from_kwargs_def)

lemma template_step_plain:
  "value = VNone \<or> (\<exists>s. value = VStr s \<and> CHR ''{'' \<notin> set s) \<Longrightarrow>
   template_step render self value = Inr value"
  by (cases "cls self"; cases "priv_context self")
    (auto simp add: template_step_def template_call_def get_context_def resolve_template_def)

text \<open>
  C3, as amended. Let field A have no non-empty stored value that is used and let its
  populate-from be the name B. Then \<^verbatim>\<open>MetadataBaseModel._resolve_value\<close> returns for A
  exactly what \<^verbatim>\<open>self._resolve_value(B)\<close> returns. That call is the override of the
  record's class, and the override resolving A passes its result through the template
  step once more: resolving A on a record is the template step applied to what
  resolving B on the record returns (an exception or a non-returning resolution of B
  is the outcome for A too). The two are the same value whenever B resolves to
  \<^verbatim>\<open>None\<close> or to a text without a brace.
\<close>

theorem alias_resolution:
  assumes "elements md a = Some element"
    and "\<not> (editable element \<and> truthy (stored (row self) a))"
    and "populate_from element = FieldName b"
  shows "MetadataBaseModel_resolve_value self_resolve md self a = self_resolve b
    \<and> resolve_value render md self a =
        Option.bind (resolve_value render md self b) (\<lambda>r. Some (override_step render self r))
    \<and> (\<forall>value. resolve_value render md self b = Some (Inr value)
          \<and> (value = VNone \<or> (\<exists>s. value = VStr s \<and> CHR ''{'' \<notin> set s))
          \<longrightarrow> resolve_value render md self a = Some (Inr value))"
proof -
  have base: "MetadataBaseModel_resolve_value g md self a = g b" for g
    using assms by (auto simp add: MetadataBaseModel_resolve_value_def)
  have unfold: "resolve_value render md self a =
        Option.bind (resolve_value render md self b) (\<lambda>r. Some (override_step render self r))"
    by (subst resolve_value_unfold) (simp add: base)
  show ?thesis
    by (auto simp add: base unfold override_step_def template_step_plain)
qed

theorem alias_resolution_witness:
  "resolve_value example_render example_metadata (example_path_record ''Hello'') ''og_title''
     = Some (Inr (VStr ''Hello''))
   \<and> resolve_value example_render example_metadata (example_path_record ''Hello'') ''title''
     = Some (Inr (VStr ''Hello''))"
proof -
  have t: "resolve_value example_render example_metadata (example_path_record ''Hello'') ''title''
     = Some (Inr (VStr ''Hello''))"
    by (simp add: resolve_value_unfold resolve_defs example_defs)
  have "elements example_metadata ''og_title''
      = Some \<lparr>editable = True, populate_from = FieldName ''title''\<rparr>"
    by (simp add: example_defs)
  from alias_resolution [OF this, of "example_path_record ''Hello''" "''title''"
      "\<lambda>n. None" example_render] t
  show ?thesis by (simp add: example_defs resolve_defs)
qed

text \<open>
  The claim as stated fails on a Path record whose context binds \<^verbatim>\<open>t\<close> to the text
  \<^verbatim>\<open>{{ u }}\<close>: the field \<^verbatim>\<open>title\<close> stores \<^verbatim>\<open>{{ t }}\<close> and resolves to
  \<^verbatim>\<open>{{ u }}\<close>, the field \<^verbatim>\<open>og_title\<close>, empty and populated from \<^verbatim>\<open>title\<close>, resolves
  to the empty text, because the resolved title is rendered a second time.
\<close>

theorem alias_resolution_counterexample:
  "elements example_metadata ''og_title''
     = Some \<lparr>editable = True, populate_from = FieldName ''title''\<rparr>
   \<and> stored (row (example_path_record ''{{ t }}'')) ''og_title'' = VNone
   \<and> resolve_value example_render example_metadata (example_path_record ''{{ t }}'') ''og_title''
       = Some (Inr (VStr []))
   \<and> resolve_value example_render example_metadata (example_path_record ''{{ t }}'') ''title''
       = Some (Inr (VStr ''{{ u }}''))"
  by (simp add: resolve_value_unfold resolve_defs example_defs)

subsection \<open>Failures of the template step\<close>

text \<open>
  C9, as amended. In the Path, View and ModelInstance classes an \<^verbatim>\<open>AttributeError\<close>
  raised by the template step is caught and \<^verbatim>\<open>_resolve_value\<close> returns the value of the
  base method unrendered; in the Path and ModelInstance classes a rendering context
  that was never set is such an \<^verbatim>\<open>AttributeError\<close>.
\<close>

theorem template_failure_caught:
  "(cls self \<noteq> ModelBackend
      \<and> MetadataBaseModel_resolve_value (resolve_value render md self) md self name
          = Some (Inr value)
      \<and> template_call render self value = Inl AttributeError
     \<longrightarrow> resolve_value render md self name = Some (Inr value))
   \<and> (priv_context self = Absent \<and> (cls self = PathBackend \<or> cls self = ModelInstanceBackend)
     \<longrightarrow> template_call render self value = Inl AttributeError)"
proof (intro conjI impI)
  assume a: "cls self \<noteq> ModelBackend
      \<and> MetadataBaseModel_resolve_value (resolve_value render md self) md self name
          = Some (Inr value)
      \<and> template_call render self value = Inl AttributeError"
  then have "template_step render self value = Inr value"
    by (cases "cls self") (simp_all add: template_step_def)
  with a show "resolve_value render md self name = Some (Inr value)"
    by (subst resolve_value_unfold) (simp add: override_step_def)
next
  assume "priv_context self = Absent \<and> (cls self = PathBackend \<or> cls self = ModelInstanceBackend)"
  then show "template_call render self value = Inl AttributeError"
    by (auto simp add: template_call_def get_context_def)
qed

theorem template_failure_caught_witness:
  "resolve_value example_render example_metadata (example_unprocessed_record ''{{ t }}'') ''title''
     = Some (Inr (VStr ''{{ t }}''))"
proof -
  let ?r = "example_unprocessed_record ''{{ t }}''"
  have c: "cls ?r \<noteq> ModelBackend" "priv_context ?r = Absent" "cls ?r = PathBackend"
    by (simp_all add: example_defs)
  have b: "MetadataBaseModel_resolve_value (resolve_value example_render example_metadata ?r)
      example_metadata ?r ''title'' = Some (Inr (VStr ''{{ t }}''))"
    by (simp add: MetadataBaseModel_resolve_value_def example_defs)
  from template_failure_caught [of ?r example_render example_metadata "''title''" "VStr ''{{ t }}''"]
    c b
  show ?thesis by simp
qed

text \<open>
  The claim as stated fails: the handler names \<^verbatim>\<open>AttributeError\<close> only, so a template
  syntax error of the renderer leaves \<^verbatim>\<open>_resolve_value\<close> of a Path record; the Model
  class has no handler.
\<close>

theorem template_failure_counterexample:
  "resolve_value example_render example_metadata (example_path_record ''{% endif %}'') ''title''
     = Some (Inl TemplateSyntaxError)
   \<and> resolve_value example_render example_metadata (example_model_record ''{% endif %}'') ''title''
     = Some (Inl TemplateSyntaxError)"
  by (simp add: resolve_value_unfold resolve_defs example_defs)

subsection \<open>The query scope\<close>

lemma visible_filter:
  assumes "site_id_of SITE_ID sites site = Inr p"
  shows "visible (Inr p) language subdomain r \<longleftrightarrow>
     where_site p r
     \<and> (case language of None \<Rightarrow> True | Some l \<Rightarrow> l = [] \<or> u_language (row r) = Some l)
     \<and> (case subdomain of None \<Rightarrow> True
        | Some sd \<Rightarrow> u_subdomain (row r) = Some sd \<or> u_all_subdomains (row r))"
  by (auto simp add: visible_def where_site_def split: option.splits)

lemma filters_result:
  assumes "filter_language opts language qs = Inr a"
    and "filter_subdomain opts subdomain a = Inr rs"
  shows "mset rs = mset (filter (\<lambda>r.
            (case language of None \<Rightarrow> True | Some l \<Rightarrow> l = [] \<or> u_language (row r) = Some l)
          \<and> (case subdomain of None \<Rightarrow> True
             | Some sd \<Rightarrow> u_subdomain (row r) = Some sd \<or> u_all_subdomains (row r))) qs)"
    and "subdomain \<noteq> None \<Longrightarrow> sorted (map (\<lambda>r. u_all_subdomains (row r)) rs)"
  using assms
  by (auto simp add: filter_language_def filter_subdomain_def split: option.splits if_splits)

lemma by_params_result:
  assumes conform: "\<forall>r \<in> set table. \<not> use_sites opts \<longrightarrow> u_site (row r) = None"
    and result: "by_params opts SITE_ID sites table site language subdomain = Inr rs"
  shows "mset rs = mset (filter (visible (site_id_of SITE_ID sites site) language subdomain) table)"
    and "subdomain \<noteq> None \<Longrightarrow> sorted (map (\<lambda>r. u_all_subdomains (row r)) rs)"
proof -
  let ?L = "\<lambda>r. case language of None \<Rightarrow> True | Some l \<Rightarrow> l = [] \<or> u_language (row r) = Some l"
  let ?S = "\<lambda>r. case subdomain of None \<Rightarrow> True
             | Some sd \<Rightarrow> u_subdomain (row r) = Some sd \<or> u_all_subdomains (row r)"
  let ?V = "visible (site_id_of SITE_ID sites site) language subdomain"
  have "mset rs = mset (filter ?V table)
      \<and> (subdomain \<noteq> None \<longrightarrow> sorted (map (\<lambda>r. u_all_subdomains (row r)) rs))"
  proof (cases "use_sites opts")
    case False
    with result obtain a where a: "filter_language opts language table = Inr a"
      and rs: "filter_subdomain opts subdomain a = Inr rs"
      by (auto simp add: by_params_def split: sum.splits)
    have "filter ?V table = filter (\<lambda>r. ?L r \<and> ?S r) table"
      using conform False
      by (intro filter_cong refl) (auto simp add: visible_def split: option.splits)
    with filters_result [OF a rs] show ?thesis by simp
  next
    case True
    with result obtain p a where p: "site_id_of SITE_ID sites site = Inr p"
      and a: "filter_language opts language (filter (where_site p) table) = Inr a"
      and rs: "filter_subdomain opts subdomain a = Inr rs"
      by (auto simp add: by_params_def BaseManager_by_params_def on_current_site_def
          split: sum.splits)
    have "filter ?V table = filter (\<lambda>r. ?L r \<and> ?S r) (filter (where_site p) table)"
      unfolding p filter_filter
      by (intro filter_cong refl) (auto simp add: visible_filter [OF p])
    with filters_result [OF a rs] show ?thesis by simp
  qed
  then show "mset rs = mset (filter ?V table)"
    and "subdomain \<noteq> None \<Longrightarrow> sorted (map (\<lambda>r. u_all_subdomains (row r)) rs)"
    by simp_all
qed

lemma filter_language_returns:
  "(\<exists>l. language = Some l \<and> l \<noteq> []) \<longrightarrow> use_i18n opts \<Longrightarrow>
   \<exists>a. filter_language opts language qs = Inr a"
  by (cases language) (simp_all add: filter_language_def)

lemma filter_subdomain_returns:
  "subdomain \<noteq> None \<longrightarrow> use_subdomains opts \<Longrightarrow>
   \<exists>rs. filter_subdomain opts subdomain qs = Inr rs"
  by (cases subdomain) (simp_all add: filter_subdomain_def)

text \<open>
  The query is answered whenever the requested site can be found (where sites are in
  use) and no filter is asked on an axis that the model was built without.
\<close>

lemma by_params_returns:
  assumes "use_sites opts \<longrightarrow> (\<exists>p. site_id_of SITE_ID sites site = Inr p)"
    and "(\<exists>l. language = Some l \<and> l \<noteq> []) \<longrightarrow> use_i18n opts"
    and "subdomain \<noteq> None \<longrightarrow> use_subdomains opts"
  shows "\<exists>rs. by_params opts SITE_ID sites table site language subdomain = Inr rs"
proof -
  define qs where "qs = (if use_sites opts
      then filter (where_site (projr (site_id_of SITE_ID sites site))) table else table)"
  from filter_language_returns [OF assms(2)]
  obtain a where a: "filter_language opts language qs = Inr a" by blast
  from filter_subdomain_returns [OF assms(3)]
  obtain rs where rs: "filter_subdomain opts subdomain a = Inr rs" by blast
  show ?thesis
  proof (cases "use_sites opts")
    case False
    with a rs show ?thesis by (simp add: by_params_def qs_def)
  next
    case True
    with assms(1) obtain p where "site_id_of SITE_ID sites site = Inr p" by blast
    with True a rs show ?thesis
      by (simp add: by_params_def BaseManager_by_params_def on_current_site_def qs_def)
  qed
qed

text \<open>
  C6, as amended. Let the rows conform to the model (no site on a row when sites are not in use) and
  let the query be answered. Then a row is among the candidates iff it is visible: its
  site is null or is the requested site, its language is the requested one when a
  language is requested, and, when a subdomain is requested, its subdomain is the
  requested one or its all-subdomains flag is set. Under a requested subdomain the
  candidates are ordered on the flag, not on how a row matched: every row with the
  flag off, which matched through its own subdomain, comes before every row with the
  flag on.
\<close>

theorem by_params_visibility:
  assumes "\<forall>r \<in> set table. \<not> use_sites opts \<longrightarrow> u_site (row r) = None"
    and "by_params opts SITE_ID sites table site language subdomain = Inr rs"
  shows "(\<forall>r. r \<in> set rs \<longleftrightarrow>
            r \<in> set table \<and> visible (site_id_of SITE_ID sites site) language subdomain r)
     \<and> (subdomain \<noteq> None \<longrightarrow>
          (\<forall>i j. i < length rs \<and> j < length rs
             \<and> \<not> u_all_subdomains (row (rs ! i)) \<and> u_all_subdomains (row (rs ! j))
             \<longrightarrow> i < j))"
proof (intro conjI allI impI)
  fix r
  from by_params_result(1) [OF assms]
  have "set rs = set (filter (visible (site_id_of SITE_ID sites site) language subdomain) table)"
    by (rule mset_eq_setD)
  then show "r \<in> set rs \<longleftrightarrow>
            r \<in> set table \<and> visible (site_id_of SITE_ID sites site) language subdomain r"
    by auto
next
  fix i j
  assume sd: "subdomain \<noteq> None"
    and ij: "i < length rs \<and> j < length rs
             \<and> \<not> u_all_subdomains (row (rs ! i)) \<and> u_all_subdomains (row (rs ! j))"
  let ?flags = "map (\<lambda>r. u_all_subdomains (row r)) rs"
  from by_params_result(2) [OF assms sd] have sorted: "sorted ?flags" .
  show "i < j"
  proof (rule ccontr)
    assume "\<not> i < j"
    with ij have "j \<le> i" "i < length ?flags" by simp_all
    with sorted have "?flags ! j \<le> ?flags ! i" by (rule sorted_nth_mono)
    with ij show False by simp
  qed
qed

theorem by_params_visibility_witness:
  "by_params example_options 1 []
     [example_record PathBackend 0 1 None None True,
      example_record PathBackend 0 2 None (Some ''shop'') False,
      example_record PathBackend 0 3 (Some 1) (Some ''shop'') False]
     (Some (SiteInstance 2)) None (Some ''shop'')
   = Inr [example_record PathBackend 0 2 None (Some ''shop'') False,
          example_record PathBackend 0 1 None None True]
   \<and> visible (site_id_of 1 [] (Some (SiteInstance 2))) None (Some ''shop'')
        (example_record PathBackend 0 1 None None True)
   \<and> \<not> visible (site_id_of 1 [] (Some (SiteInstance 2))) None (Some ''shop'')
        (example_record PathBackend 0 3 (Some 1) (Some ''shop'') False)"
proof -
  let ?table = "[example_record PathBackend 0 1 None None True,
      example_record PathBackend 0 2 None (Some ''shop'') False,
      example_record PathBackend 0 3 (Some 1) (Some ''shop'') False]"
  let ?rs = "[example_record PathBackend 0 2 None (Some ''shop'') False,
          example_record PathBackend 0 1 None None True]"
  have run: "by_params example_options 1 [] ?table (Some (SiteInstance 2)) None (Some ''shop'')
      = Inr ?rs"
    by (simp add: by_params_def BaseManager_by_params_def on_current_site_def site_id_of_def
        where_site_def filter_language_def filter_subdomain_def example_options_def
        example_record_def)
  have conform: "\<forall>r \<in> set ?table. \<not> use_sites example_options \<longrightarrow> u_site (row r) = None"
    by (simp add: example_options_def)
  let ?r1 = "example_record PathBackend 0 1 None None True"
  let ?r3 = "example_record PathBackend 0 3 (Some 1) (Some ''shop'') False"
  from by_params_visibility [OF conform run]
  have all: "\<forall>r. r \<in> set ?rs \<longleftrightarrow>
      r \<in> set ?table \<and> visible (site_id_of 1 [] (Some (SiteInstance 2))) None (Some ''shop'') r"
    by blast
  from all [rule_format, of ?r1] all [rule_format, of ?r3]
  have "visible (site_id_of 1 [] (Some (SiteInstance 2))) None (Some ''shop'')
        (example_record PathBackend 0 1 None None True)
    \<and> \<not> visible (site_id_of 1 [] (Some (SiteInstance 2))) None (Some ''shop'')
        (example_record PathBackend 0 3 (Some 1) (Some ''shop'') False)"
    by (simp add: example_record_def)
  with run show ?thesis by simp
qed

text \<open>
  The claim as stated fails for a row that has the requested subdomain and the flag as
  well: the ordering does not tell it from a general row. For a request under
  \<^verbatim>\<open>shop\<close>, a general row stored before such a row stays before it.
\<close>

theorem by_params_exact_match_counterexample:
  "by_params example_options 1 []
     [example_record PathBackend 0 1 None None True,
      example_record PathBackend 0 2 None (Some ''shop'') True]
     (Some (SiteInstance 2)) None (Some ''shop'')
   = Inr [example_record PathBackend 0 1 None None True,
          example_record PathBackend 0 2 None (Some ''shop'') True]
   \<and> u_subdomain (row (example_record PathBackend 0 2 None (Some ''shop'') True)) = Some ''shop''
   \<and> u_subdomain (row (example_record PathBackend 0 1 None None True)) = None
   \<and> u_all_subdomains (row (example_record PathBackend 0 1 None None True))"
  by (simp add: by_params_def BaseManager_by_params_def on_current_site_def site_id_of_def
      where_site_def filter_language_def filter_subdomain_def example_options_def
      example_record_def)

subsection \<open>Context threading\<close>

lemma update_not_Nil: "AList.update k v al \<noteq> []"
  by (cases al) simp_all

lemma get_instances_content_type:
  "map_of ctx ''content_type'' = Some (CContentType ct) \<Longrightarrow>
   ModelBackend_get_instances queryset path (Some ctx)
     = Inr (Some (filter (\<lambda>r. u_content_type (row r) = ct) queryset))"
  by (cases ctx) (simp_all add: ModelBackend_get_instances_def context_content_type_def)

text \<open>
  C10. When a ModelInstance record processes the context, the context afterwards holds
  the content type of the record under \<^verbatim>\<open>content_type\<close> and the record itself under
  \<^verbatim>\<open>model_instance\<close>, and \<^verbatim>\<open>ModelBackend.get_instances\<close> on that context filters the
  candidates by exactly that content type. In general it filters by the content type
  under \<^verbatim>\<open>content_type\<close>; when the key is missing it falls back to the content type of
  the \<^verbatim>\<open>object\<close> entry of \<^verbatim>\<open>view_context\<close>; with no context, or with neither of the
  two, it returns no candidates at all.
\<close>

theorem context_threading:
  "(cls self = ModelInstanceBackend \<longrightarrow>
      map_of (snd (process_context self context)) ''content_type''
        = Some (CContentType (u_content_type (row self)))
    \<and> map_of (snd (process_context self context)) ''model_instance''
        = Some (CRecord (fst (process_context self context)))
    \<and> row (fst (process_context self context)) = row self
    \<and> ModelBackend_get_instances queryset path (Some (snd (process_context self context)))
        = Inr (Some (filter (\<lambda>r. u_content_type (row r) = u_content_type (row self)) queryset)))
   \<and> (map_of ctx ''content_type'' = Some (CContentType ct) \<longrightarrow>
        ModelBackend_get_instances queryset path (Some ctx)
          = Inr (Some (filter (\<lambda>r. u_content_type (row r) = ct) queryset)))
   \<and> (map_of ctx ''content_type'' = None \<and> map_of ctx ''view_context'' = Some (CViewContext vc)
        \<and> map_of vc ''object'' = Some (TObject obj) \<longrightarrow>
        ModelBackend_get_instances queryset path (Some ctx)
          = Inr (Some (filter (\<lambda>r. u_content_type (row r) = content_type_id obj) queryset)))
   \<and> ModelBackend_get_instances queryset path None = Inr None
   \<and> (map_of ctx ''content_type'' = None
        \<and> (map_of ctx ''view_context'' = None
           \<or> map_of ctx ''view_context'' = Some CNone
           \<or> (map_of ctx ''view_context'' = Some (CViewContext vc) \<and> map_of vc ''object'' = None))
        \<longrightarrow> ModelBackend_get_instances queryset path (Some ctx) = Inr None)"
proof (intro conjI impI)
  assume mi: "cls self = ModelInstanceBackend"
  let ?p = "process_context self context"
  show ct: "map_of (snd ?p) ''content_type'' = Some (CContentType (u_content_type (row self)))"
    using mi
    by (simp add: process_context_def ModelInstance_process_context_def Let_def
        set_priv_context_def update_conv')
  show "map_of (snd ?p) ''model_instance'' = Some (CRecord (fst ?p))"
    using mi
    by (simp add: process_context_def ModelInstance_process_context_def Let_def update_conv')
  show "row (fst ?p) = row self"
    using mi
    by (simp add: process_context_def ModelInstance_process_context_def Let_def
        set_priv_context_def)
  show "ModelBackend_get_instances queryset path (Some (snd ?p))
        = Inr (Some (filter (\<lambda>r. u_content_type (row r) = u_content_type (row self)) queryset))"
    by (rule get_instances_content_type [OF ct])
next
  assume "map_of ctx ''content_type'' = Some (CContentType ct)"
  then show "ModelBackend_get_instances queryset path (Some ctx)
          = Inr (Some (filter (\<lambda>r. u_content_type (row r) = ct) queryset))"
    by (rule get_instances_content_type)
next
  assume "map_of ctx ''content_type'' = None \<and> map_of ctx ''view_context'' = Some (CViewContext vc)
        \<and> map_of vc ''object'' = Some (TObject obj)"
  then show "ModelBackend_get_instances queryset path (Some ctx)
          = Inr (Some (filter (\<lambda>r. u_content_type (row r) = content_type_id obj) queryset))"
    by (cases ctx; cases vc)
      (simp_all add: ModelBackend_get_instances_def context_content_type_def)
next
  show "ModelBackend_get_instances queryset path None = Inr None"
    by (simp add: ModelBackend_get_instances_def)
next
  assume "map_of ctx ''content_type'' = None
        \<and> (map_of ctx ''view_context'' = None
           \<or> map_of ctx ''view_context'' = Some CNone
           \<or> (map_of ctx ''view_context'' = Some (CViewContext vc) \<and> map_of vc ''object'' = None))"
  then show "ModelBackend_get_instances queryset path (Some ctx) = Inr None"
    by (auto simp add: ModelBackend_get_instances_def context_content_type_def)
qed

theorem context_threading_witness:
  "ModelBackend_get_instances
     [example_record ModelBackend 7 0 None None False,
      example_record ModelBackend 8 0 None None False]
     (Some ''/x/'')
     (Some (snd (process_context (example_record ModelInstanceBackend 7 1 None None False)
        [(''view_context'', CViewContext [])])))
   = Inr (Some [example_record ModelBackend 7 0 None None False])
   \<and> ModelBackend_get_instances
     [example_record ModelBackend 7 0 None None False,
      example_record ModelBackend 8 0 None None False]
     (Some ''/x/'') (Some [(''view_context'', CViewContext [])])
   = Inr None"
  using context_threading [of "example_record ModelInstanceBackend 7 1 None None False"
      "[(''view_context'', CViewContext [])]"
      "[example_record ModelBackend 7 0 None None False,
        example_record ModelBackend 8 0 None None False]"
      "Some ''/x/''" "[(''view_context'', CViewContext [])]" 7 "[]"]
  by (simp add: example_record_def)

subsection \<open>Duplicate saves\<close>

text \<open>
  C8, as amended. A save of a ModelInstance record that violates the uniqueness
  constraint returns without an error, after the one attempt, with the rows as they
  were. On the store with the composite constraint, saving two records that agree on
  one of the derived keys, no column of which is null, therefore raises no error and
  adds exactly one row, the first. A record whose derived keys all have a null column
  violates nothing, and its row is added.
\<close>

theorem duplicate_save_swallowed:
  "(derive_path self = Inr self' \<and> super_save db self' = Inl IntegrityError
      \<longrightarrow> ModelInstance_save super_save db self = Inr (self', db))
   \<and> (derive_path r1 = Inr r1' \<and> derive_path r2 = Inr r2'
       \<and> ut_set \<in> set (get_unique_together ModelInstanceBackend opts)
       \<and> key_of ut_set r1' = key_of ut_set r2'
       \<and> ColNull \<notin> set (key_of ut_set r2')
       \<and> \<not> violates (get_unique_together ModelInstanceBackend opts) rows r1'
      \<longrightarrow> ModelInstance_save (Model_save (get_unique_together ModelInstanceBackend opts)) rows r1
            = Inr (r1', rows @ [r1'])
        \<and> ModelInstance_save (Model_save (get_unique_together ModelInstanceBackend opts))
              (rows @ [r1']) r2
            = Inr (r2', rows @ [r1']))
   \<and> (derive_path r2 = Inr r2'
       \<and> (\<forall>ut_set \<in> set (get_unique_together ModelInstanceBackend opts).
             ColNull \<in> set (key_of ut_set r2'))
      \<longrightarrow> ModelInstance_save (Model_save (get_unique_together ModelInstanceBackend opts)) rows r2
            = Inr (r2', rows @ [r2']))"
proof (intro conjI impI)
  assume "derive_path self = Inr self' \<and> super_save db self' = Inl IntegrityError"
  then show "ModelInstance_save super_save db self = Inr (self', db)"
    by (simp add: ModelInstance_save_def)
next
  let ?ut = "get_unique_together ModelInstanceBackend opts"
  assume a: "derive_path r1 = Inr r1' \<and> derive_path r2 = Inr r2'
       \<and> ut_set \<in> set ?ut \<and> key_of ut_set r1' = key_of ut_set r2'
       \<and> ColNull \<notin> set (key_of ut_set r2') \<and> \<not> violates ?ut rows r1'"
  then show "ModelInstance_save (Model_save ?ut) rows r1 = Inr (r1', rows @ [r1'])"
    by (simp add: ModelInstance_save_def Model_save_def)
  from a have "violates ?ut (rows @ [r1']) r2'"
    unfolding violates_def list_ex_iff by auto
  with a show "ModelInstance_save (Model_save ?ut) (rows @ [r1']) r2 = Inr (r2', rows @ [r1'])"
    by (simp add: ModelInstance_save_def Model_save_def)
next
  let ?ut = "get_unique_together ModelInstanceBackend opts"
  assume a: "derive_path r2 = Inr r2' \<and> (\<forall>ut_set \<in> set ?ut. ColNull \<in> set (key_of ut_set r2'))"
  then have "\<not> violates ?ut rows r2'"
    unfolding violates_def list_ex_iff by blast
  with a show "ModelInstance_save (Model_save ?ut) rows r2 = Inr (r2', rows @ [r2'])"
    by (simp add: ModelInstance_save_def Model_save_def)
qed

theorem duplicate_save_swallowed_witness:
  "ModelInstance_save
     (Model_save (get_unique_together ModelInstanceBackend
        \<lparr>use_sites = True, use_i18n = False, use_subdomains = False, backends = []\<rparr>)) []
     (example_record ModelInstanceBackend 7 1 (Some 1) None False)
   = Inr (example_record ModelInstanceBackend 7 1 (Some 1) None False,
          [example_record ModelInstanceBackend 7 1 (Some 1) None False])
   \<and> ModelInstance_save
     (Model_save (get_unique_together ModelInstanceBackend
        \<lparr>use_sites = True, use_i18n = False, use_subdomains = False, backends = []\<rparr>))
     [example_record ModelInstanceBackend 7 1 (Some 1) None False]
     (example_record ModelInstanceBackend 7 1 (Some 1) None True)
   = Inr (example_record ModelInstanceBackend 7 1 (Some 1) None True,
          [example_record ModelInstanceBackend 7 1 (Some 1) None False])"
proof -
  let ?o = "\<lparr>use_sites = True, use_i18n = False, use_subdomains = False, backends = []\<rparr>"
  let ?r1 = "example_record ModelInstanceBackend 7 1 (Some 1) None False"
  let ?r2 = "example_record ModelInstanceBackend 7 1 (Some 1) None True"
  let ?t = "[''_content_type'', ''_object_id'', ''_site'']"
  have d: "derive_path ?r1 = Inr ?r1 \<and> derive_path ?r2 = Inr ?r2"
    by (simp add: derive_path_def example_record_def)
  have t: "?t \<in> set (get_unique_together ModelInstanceBackend ?o)"
    by (simp add: get_unique_together_def extend_ut_set_def)
  have k: "key_of ?t ?r1 = key_of ?t ?r2 \<and> ColNull \<notin> set (key_of ?t ?r2)"
    by (simp add: key_of_def column_def example_record_def)
  have v: "\<not> violates (get_unique_together ModelInstanceBackend ?o) [] ?r1"
    by (simp add: violates_def list_ex_iff)
  from duplicate_save_swallowed [of ?r1 ?r1 "Model_save []" "[]" ?r1 ?r1 ?r2 ?r2 ?t ?o "[]"]
    d t k v
  show ?thesis by simp
qed

text \<open>
  The claim as stated fails where an axis column is null. With the three axes in use,
  two records for the same object and path whose site, language and subdomain are
  null agree on both derived keys; the second save raises nothing and both rows are
  stored.
\<close>

theorem duplicate_save_counterexample:
  "key_of [''_path'', ''_site'', ''_language'', ''_subdomain'']
       (example_record ModelInstanceBackend 7 1 None None False)
     = key_of [''_path'', ''_site'', ''_language'', ''_subdomain'']
       (example_record ModelInstanceBackend 7 1 None None True)
   \<and> key_of [''_content_type'', ''_object_id'', ''_site'', ''_language'', ''_subdomain'']
       (example_record ModelInstanceBackend 7 1 None None False)
     = key_of [''_content_type'', ''_object_id'', ''_site'', ''_language'', ''_subdomain'']
       (example_record ModelInstanceBackend 7 1 None None True)
   \<and> get_unique_together ModelInstanceBackend example_options
     = [[''_path'', ''_site'', ''_language'', ''_subdomain''],
        [''_content_type'', ''_object_id'', ''_site'', ''_language'', ''_subdomain'']]
   \<and> ModelInstance_save (Model_save (get_unique_together ModelInstanceBackend example_options))
       [example_record ModelInstanceBackend 7 1 None None False]
       (example_record ModelInstanceBackend 7 1 None None True)
     = Inr (example_record ModelInstanceBackend 7 1 None None True,
            [example_record ModelInstanceBackend 7 1 None None False,
             example_record ModelInstanceBackend 7 1 None None True])"
  by (simp add: ModelInstance_save_def Model_save_def violates_def derive_path_def
      get_unique_together_def extend_ut_set_def example_options_def key_of_def column_def
      example_record_def)

subsection \<open>Canonical paths\<close>

lemmas example_urllib_defs =
  example_urllib_def example_urlparse_def example_parse_qsl_def example_geturl_def

lemma os_path_join_slash:
  "os_path_join a ['''', ''''] = (if a = [] \<or> last a = CHR ''/'' then a else a @ ''/'')"
  by simp

lemma sort_key_stable_eq:
  assumes "mset xs = mset ys"
    and "\<And>k. filter (\<lambda>x. f x = k) xs = filter (\<lambda>x. f x = k) ys"
  shows "sort_key f xs = sort_key f ys"
proof (rule properties_for_sort_key)
  show "mset (sort_key f ys) = mset xs" using assms(1) by simp
  show "sorted (map f (sort_key f ys))" by simp
  fix k assume "k \<in> set (sort_key f ys)"
  have flip: "(\<lambda>x. f k = f x) = (\<lambda>x. f x = f k)" by auto
  show "filter (\<lambda>x. f k = f x) (sort_key f ys) = filter (\<lambda>x. f k = f x) xs"
    unfolding flip by (simp add: sort_key_stable assms(2))
qed

lemma canonical_path_no_query:
  "pr_query (urlparse lib p) = [] \<Longrightarrow> canonical_path lib a p = p"
  by (simp add: canonical_path_def Let_def)

lemma canonical_path_query:
  assumes "pr_query (urlparse lib p) \<noteq> []"
  shows "canonical_path lib a p = geturl lib (canonical_parts lib a (urlparse lib p))"
  using assms
  by (cases "urlparse lib p") (auto simp add: canonical_path_def canonical_parts_def Let_def)

lemma canonical_parts_cong:
  assumes "P\<lparr>pr_query := []\<rparr> = Q\<lparr>pr_query := []\<rparr>"
    and "sort_key fst (parse_qsl lib (pr_query P)) = sort_key fst (parse_qsl lib (pr_query Q))"
  shows "canonical_parts lib a P = canonical_parts lib a Q"
proof -
  from assms(1) have "pr_path P = pr_path Q" and "P\<lparr>pr_query := x\<rparr> = Q\<lparr>pr_query := x\<rparr>" for x
    by (cases P, cases Q, simp)+
  with assms(2) show ?thesis
    by (cases P, cases Q) (simp add: canonical_parts_def)
qed

text \<open>
  C4, as amended. A path without a query is left as it is. For a path with a query, the
  result is put together again from the components with a slash appended to a path
  component that is not empty and does not already end in one (when the append-slash
  setting is on, whether or not the path ends in a file name), and with the pairs of
  the query sorted by key, pairs of equal key in their order, and encoded again. Two
  paths with a query whose other components agree and whose queries hold the same
  pairs, with the same order among pairs of equal key, get the same result.
\<close>

theorem canonical_path_canonical:
  "(pr_query (urlparse lib p) = [] \<longrightarrow> canonical_path lib a p = p)
   \<and> (pr_query (urlparse lib p) \<noteq> [] \<longrightarrow>
        canonical_path lib a p = geturl lib (canonical_parts lib a (urlparse lib p))
        \<and> sorted (map fst (sort_key fst (parse_qsl lib (pr_query (urlparse lib p))))))
   \<and> (pr_query (urlparse lib p) \<noteq> [] \<and> pr_query (urlparse lib q) \<noteq> []
       \<and> (urlparse lib p)\<lparr>pr_query := []\<rparr> = (urlparse lib q)\<lparr>pr_query := []\<rparr>
       \<and> mset (parse_qsl lib (pr_query (urlparse lib p)))
           = mset (parse_qsl lib (pr_query (urlparse lib q)))
       \<and> (\<forall>k. filter (\<lambda>kv. fst kv = k) (parse_qsl lib (pr_query (urlparse lib p)))
              = filter (\<lambda>kv. fst kv = k) (parse_qsl lib (pr_query (urlparse lib q))))
      \<longrightarrow> canonical_path lib a p = canonical_path lib a q)"
proof (intro conjI impI)
  assume "pr_query (urlparse lib p) = []"
  then show "canonical_path lib a p = p" by (rule canonical_path_no_query)
next
  assume "pr_query (urlparse lib p) \<noteq> []"
  then show "canonical_path lib a p = geturl lib (canonical_parts lib a (urlparse lib p))"
    by (rule canonical_path_query)
next
  show "sorted (map fst (sort_key fst (parse_qsl lib (pr_query (urlparse lib p)))))" by simp
next
  assume a: "pr_query (urlparse lib p) \<noteq> [] \<and> pr_query (urlparse lib q) \<noteq> []
       \<and> (urlparse lib p)\<lparr>pr_query := []\<rparr> = (urlparse lib q)\<lparr>pr_query := []\<rparr>
       \<and> mset (parse_qsl lib (pr_query (urlparse lib p)))
           = mset (parse_qsl lib (pr_query (urlparse lib q)))
       \<and> (\<forall>k. filter (\<lambda>kv. fst kv = k) (parse_qsl lib (pr_query (urlparse lib p)))
              = filter (\<lambda>kv. fst kv = k) (parse_qsl lib (pr_query (urlparse lib q))))"
  then have "sort_key fst (parse_qsl lib (pr_query (urlparse lib p)))
      = sort_key fst (parse_qsl lib (pr_query (urlparse lib q)))"
    by (intro sort_key_stable_eq) simp_all
  with a have "canonical_parts lib a (urlparse lib p) = canonical_parts lib a (urlparse lib q)"
    by (intro canonical_parts_cong) simp_all
  with a show "canonical_path lib a p = canonical_path lib a q"
    by (simp add: canonical_path_query)
qed

theorem canonical_path_canonical_witness:
  "canonical_path example_urllib True ''/x/?b=2&a=1'' = ''/x/?a=1&b=2''
   \<and> canonical_path example_urllib True ''/x/?a=1&b=2'' = ''/x/?a=1&b=2''"
proof -
  let ?p = "''/x/?b=2&a=1''" and ?q = "''/x/?a=1&b=2''"
  have qp: "parse_qsl example_urllib (pr_query (urlparse example_urllib ?p))
      = [(''b'', ''2''), (''a'', ''1'')]"
    by (simp add: example_urllib_defs)
  have qq: "parse_qsl example_urllib (pr_query (urlparse example_urllib ?q))
      = [(''a'', ''1''), (''b'', ''2'')]"
    by (simp add: example_urllib_defs)
  have h1: "pr_query (urlparse example_urllib ?p) \<noteq> [] \<and> pr_query (urlparse example_urllib ?q) \<noteq> []
      \<and> (urlparse example_urllib ?p)\<lparr>pr_query := []\<rparr> = (urlparse example_urllib ?q)\<lparr>pr_query := []\<rparr>"
    by (simp add: example_urllib_defs)
  have h2: "mset (parse_qsl example_urllib (pr_query (urlparse example_urllib ?p)))
      = mset (parse_qsl example_urllib (pr_query (urlparse example_urllib ?q)))"
    unfolding qp qq by simp
  have h3: "\<forall>k. filter (\<lambda>kv. fst kv = k) (parse_qsl example_urllib (pr_query (urlparse example_urllib ?p)))
      = filter (\<lambda>kv. fst kv = k) (parse_qsl example_urllib (pr_query (urlparse example_urllib ?q)))"
    unfolding qp qq by auto
  from canonical_path_canonical [of example_urllib ?p True ?q] h1 h2 h3
  have eq: "canonical_path example_urllib True ?p = canonical_path example_urllib True ?q"
    by blast
  have "canonical_path example_urllib True ?q = ?q"
    by (simp add: canonical_path_def example_urllib_defs)
  with eq show ?thesis by simp
qed

lemma MetadataNode_render_path_eq:
  "MetadataNode_render_path lib a None p = canonical_path lib a p"
  by (simp add: MetadataNode_render_path_def)

lemma PathMetadataBase_save_path:
  "PathMetadataBase_save lib a super_save db self = Inr (self', db') \<Longrightarrow>
   u_path (row self') = canonical_path lib a (u_path (row self))"
  by (auto simp add: PathMetadataBase_save_def Let_def set_path_def split: sum.splits)

text \<open>
  The claim as stated fails: with the setting on, the path \<^verbatim>\<open>/x\<close> has no file name
  and no query and stays \<^verbatim>\<open>/x\<close>; \<^verbatim>\<open>/robots.txt?b=1\<close> ends in a file name and gets
  the slash.
\<close>

theorem canonical_path_counterexample:
  "canonical_path example_urllib True ''/x'' = ''/x''
   \<and> canonical_path example_urllib True ''/robots.txt?b=1'' = ''/robots.txt/?b=1''"
  by (simp add: canonical_path_def example_urllib_defs)

end
